theory Spec2Isabelle
  imports Complex_Main "HOL-Library.Log_Nat"
begin

section \<open>IT systems audit dashboard: risk scoring, violations and queries\<close>

text \<open>
  A shallow embedding of \<^verbatim>\<open>src/server.py\<close>. Python's \<^verbatim>\<open>float\<close> values are the
  rationals they denote, and every float operation rounds its exact result to 53
  significant bits, ties to even, as IEEE 754 binary64 does. The exponent range is
  not bounded: overflow (magnitudes from \<open>2^1024\<close>, where converting an integer raises
  \<^verbatim>\<open>OverflowError\<close>) and gradual underflow (below \<open>2^-1022\<close>) are outside the model, and no
  value of it is an infinity or a NaN. The document store is a record of three lists,
  passed in and returned; an operation of the store that fails for reasons of its own
  (connection loss) is not modelled.
\<close>

subsection \<open>Binary floating point\<close>

text \<open>\<open>ilog2 x\<close> is the binary exponent of a positive rational: \<open>2^ilog2 x \<le> x < 2^(ilog2 x + 1)\<close>.\<close>

definition ilog2 :: "rat \<Rightarrow> int" where
  "ilog2 x = (case quotient_of x of (p, q) \<Rightarrow>
     (let k = bitlen p - bitlen q in if power_int 2 k \<le> x then k else k - 1))"

definition round_half_even :: "rat \<Rightarrow> int" where
  "round_half_even x = (let n = \<lfloor>x\<rfloor>; r = x - of_int n in
     if r < 1/2 then n else if 1/2 < r then n + 1 else if even n then n else n + 1)"

text \<open>Rounding to the nearest number with a 53-bit significand, ties to even.\<close>

definition fl :: "rat \<Rightarrow> rat" where
  "fl x = (if x = 0 then 0 else
     (let e = ilog2 \<bar>x\<bar> - 52 in
        sgn x * of_int (round_half_even (\<bar>x\<bar> / power_int 2 e)) * power_int 2 e))"

definition float_add :: "rat \<Rightarrow> rat \<Rightarrow> rat" where
  "float_add x y = fl (x + y)"

definition float_mul :: "rat \<Rightarrow> rat \<Rightarrow> rat" where
  "float_mul x y = fl (x * y)"

definition float_div :: "rat \<Rightarrow> rat \<Rightarrow> rat" where
  "float_div x y = fl (x / y)"

text \<open>An \<^verbatim>\<open>int\<close> operand of a float operation is converted first.\<close>

definition float_of_int :: "int \<Rightarrow> rat" where
  "float_of_int n = fl (of_int n)"

text \<open>The decimal literals of the source denote the nearest binary64 number.\<close>

definition lit_0_2 :: rat where "lit_0_2 = fl (2 / 10)"
definition lit_0_3 :: rat where "lit_0_3 = fl (3 / 10)"
definition lit_0_5 :: rat where "lit_0_5 = fl (5 / 10)"
definition lit_0_6 :: rat where "lit_0_6 = fl (6 / 10)"
definition lit_0_8 :: rat where "lit_0_8 = fl (8 / 10)"

text \<open>
  \<^verbatim>\<open>sum(...)\<close> over floats is addition from left to right, starting from the integer
  \<open>0\<close>. (From version 3.12 the interpreter carries a correction term along; this changes
  the last bit of some sums and none of the values computed below.)
  \<^verbatim>\<open>round(x, 1)\<close> rounds the exact value of \<open>x\<close> to one decimal, ties to even, and
  converts the decimal back to binary64.
\<close>

definition py_sum :: "rat list \<Rightarrow> rat" where
  "py_sum xs = foldl float_add 0 xs"

definition py_round1 :: "rat \<Rightarrow> rat" where
  "py_round1 x = fl (of_int (round_half_even (x * 10)) / 10)"

subsection \<open>Time\<close>

text \<open>
  A \<^verbatim>\<open>datetime\<close> in UTC is its number of microseconds since 1970-01-01T00:00:00, a
  Thursday; \<^verbatim>\<open>weekday()\<close> counts Monday as 0.
\<close>

type_synonym datetime = int

definition dt_hour :: "datetime \<Rightarrow> int" where
  "dt_hour t = (t div 3600000000) mod 24"

definition dt_minute :: "datetime \<Rightarrow> int" where
  "dt_minute t = (t div 60000000) mod 60"

definition dt_weekday :: "datetime \<Rightarrow> int" where
  "dt_weekday t = (t div 86400000000 + 3) mod 7"

definition timedelta_days :: "int \<Rightarrow> int" where
  "timedelta_days n = n * 86400000000"

text \<open>\<^verbatim>\<open>t.replace(hour=h, minute=m)\<close>, for \<open>0 \<le> h < 24\<close> and \<open>0 \<le> m < 60\<close>.\<close>

definition dt_replace :: "datetime \<Rightarrow> int \<Rightarrow> int \<Rightarrow> datetime" where
  "dt_replace t h m =
     t - dt_hour t * 3600000000 - dt_minute t * 60000000 + h * 3600000000 + m * 60000000"

subsection \<open>Data model\<close>

datatype UserRole = ADMIN | USER | MANAGER | AUDITOR | GUEST

datatype AccessResult = SUCCESS | FAILED | SUSPICIOUS

datatype RiskLevel = LOW | MEDIUM | HIGH | CRITICAL

datatype ViolationType =
    UNAUTHORIZED_ACCESS
  | PRIVILEGE_ESCALATION
  | FAILED_AUTHENTICATION
  | UNUSUAL_ACTIVITY
  | SEGREGATION_DUTY_CONFLICT

record UserAccessLog =
  id_log :: string
  user_id :: string
  username :: string
  user_role :: UserRole
  access_time :: datetime
  ip_address :: string
  location :: string
  resource_accessed :: string
  access_result :: AccessResult
  session_duration_minutes :: "int option"
  failed_attempts :: int
  privilege_changes :: "string list"
  is_violation :: bool
  violation_type :: "ViolationType option"
  risk_score :: rat
  created_at :: datetime

text \<open>
  The \<^verbatim>\<open>description\<close> of a violation is a formatted text of the record's score and
  counts; nothing below reads it, and it is kept as the tuple of the values it prints.
\<close>

record AccessViolation =
  id_violation :: string
  log_id :: string
  violation_type_v :: ViolationType
  severity :: RiskLevel
  description :: "rat \<times> int \<times> nat \<times> AccessResult"
  detected_at :: datetime
  resolved :: bool

record RiskAssessment =
  id_assessment :: string
  user_id_a :: string
  assessment_date :: datetime
  overall_risk_score :: rat
  risk_level :: RiskLevel
  risk_factors :: "string list"
  recommendations :: "string list"
  ai_analysis :: "string option"

record DashboardStats =
  total_access_logs :: nat
  active_violations :: nat
  high_risk_users :: nat
  failed_logins_today :: nat
  privilege_escalations_week :: nat
  compliance_score :: rat

text \<open>The three collections of the document store, each in its natural order.\<close>

record database =
  access_logs :: "UserAccessLog list"
  violations :: "AccessViolation list"
  risk_assessments :: "RiskAssessment list"

datatype http_exception = HTTPException (status_code: nat) (detail: string)

subsection \<open>Risk scorer and risk level\<close>

definition calculate_risk_score :: "UserAccessLog \<Rightarrow> rat" where
  "calculate_risk_score alog =
     (let score = 0;
          score = float_add score (float_mul (float_of_int (failed_attempts alog)) lit_0_2);
          score = float_add score
                    (float_mul (float_of_int (int (length (privilege_changes alog)))) lit_0_3);
          score = (if access_result alog = FAILED then float_add score lit_0_5
                   else if access_result alog = SUSPICIOUS then float_add score lit_0_8
                   else score);
          hour = dt_hour (access_time alog);
          score = (if hour < 7 \<or> hour > 19 then float_add score lit_0_3 else score);
          score = (if dt_weekday (access_time alog) \<ge> 5 then float_add score lit_0_2 else score)
      in min score 1)"

definition determine_risk_level :: "rat \<Rightarrow> RiskLevel" where
  "determine_risk_level score =
     (if score \<ge> lit_0_8 then CRITICAL
      else if score \<ge> lit_0_6 then HIGH
      else if score \<ge> lit_0_3 then MEDIUM
      else LOW)"

text \<open>
  The score as section 4.1 of the specification words it: the five terms added in the
  order they are listed, in floating point, and the sum capped at 1.
\<close>

definition risk_score_formula :: "UserAccessLog \<Rightarrow> rat" where
  "risk_score_formula alog =
     min (float_add
           (float_add
             (float_add
               (float_add (float_mul lit_0_2 (float_of_int (failed_attempts alog)))
                          (float_mul lit_0_3 (float_of_int (int (length (privilege_changes alog))))))
               (if access_result alog = FAILED then lit_0_5
                else if access_result alog = SUSPICIOUS then lit_0_8 else 0))
             (if dt_hour (access_time alog) < 7 \<or> dt_hour (access_time alog) > 19
              then lit_0_3 else 0))
           (if dt_weekday (access_time alog) = 5 \<or> dt_weekday (access_time alog) = 6
            then lit_0_2 else 0))
         1"

subsection \<open>Sample data generator\<close>

text \<open>
  One iteration of the generator's loop draws the values below; the identifiers come
  from \<^verbatim>\<open>uuid4\<close> and the three instants from the clock. The ranges the source draws from
  are not part of the model: every property below holds for any values.
\<close>

record draw =
  d_user :: "string \<times> string \<times> UserRole"
  d_ip_loc :: "string \<times> string"
  d_resource :: string
  d_now :: datetime
  d_days_back :: int
  d_hour :: int
  d_minute :: int
  d_access_result :: AccessResult
  d_failed_attempts :: int
  d_privilege_changes :: "string list"
  d_session_duration :: "int option"
  d_log_id :: string
  d_created_at :: datetime
  d_violation_id :: string
  d_detected_at :: datetime

text \<open>The constructor call of the loop, with the defaults of the fields it leaves out.\<close>

definition new_log :: "draw \<Rightarrow> UserAccessLog" where
  "new_log d =
     \<lparr>id_log = d_log_id d,
      user_id = fst (d_user d),
      username = fst (snd (d_user d)),
      user_role = snd (snd (d_user d)),
      access_time = dt_replace (d_now d - timedelta_days (d_days_back d)) (d_hour d) (d_minute d),
      ip_address = fst (d_ip_loc d),
      location = snd (d_ip_loc d),
      resource_accessed = d_resource d,
      access_result = d_access_result d,
      session_duration_minutes = d_session_duration d,
      failed_attempts = d_failed_attempts d,
      privilege_changes = d_privilege_changes d,
      is_violation = False,
      violation_type = None,
      risk_score = 0,
      created_at = d_created_at d\<rparr>"

text \<open>
  The violation test and the choice of the violation type, lines 248 to 275, on the
  scored record. The locals \<^verbatim>\<open>failed_attempts\<close>, \<^verbatim>\<open>privilege_changes\<close> and
  \<^verbatim>\<open>access_result\<close> are the values the record was built from and are read from it;
  \<^verbatim>\<open>hour\<close> is the drawn hour. The result is the record and the violation documents
  appended for it (none or one).
\<close>

definition flag_violation ::
    "string \<Rightarrow> datetime \<Rightarrow> int \<Rightarrow> UserAccessLog \<Rightarrow> UserAccessLog \<times> AccessViolation list" where
  "flag_violation vid now hour alog =
     (if risk_score alog > lit_0_6 \<or>
         failed_attempts alog > 3 \<or>
         length (privilege_changes alog) > 0 \<or>
         access_result alog = SUSPICIOUS
      then
        (let vt = (if length (privilege_changes alog) > 0 then PRIVILEGE_ESCALATION
                   else if failed_attempts alog > 3 then FAILED_AUTHENTICATION
                   else if access_result alog = SUSPICIOUS then UNUSUAL_ACTIVITY
                   else if hour < 7 \<or> hour > 19 then UNAUTHORIZED_ACCESS
                   else SEGREGATION_DUTY_CONFLICT);
             alog = alog\<lparr>is_violation := True, violation_type := Some vt\<rparr>
         in (alog,
             [\<lparr>id_violation = vid,
               log_id = id_log alog,
               violation_type_v = vt,
               severity = determine_risk_level (risk_score alog),
               description = (risk_score alog, failed_attempts alog,
                              length (privilege_changes alog), access_result alog),
               detected_at = now,
               resolved = False\<rparr>]))
      else (alog, []))"

definition generate_record :: "draw \<Rightarrow> UserAccessLog \<times> AccessViolation list" where
  "generate_record d =
     (let alog = new_log d;
          alog = alog\<lparr>risk_score := calculate_risk_score alog\<rparr>
      in flag_violation (d_violation_id d) (d_detected_at d) (d_hour d) alog)"

text \<open>The three collections are emptied, then the new documents are inserted.\<close>

definition generate_sample_data :: "draw list \<Rightarrow> database \<Rightarrow> database \<times> nat \<times> nat" where
  "generate_sample_data draws db =
     (let db = db\<lparr>access_logs := [], violations := [], risk_assessments := []\<rparr>;
          records = map generate_record draws;
          logs = map fst records;
          viols = concat (map snd records);
          db = db\<lparr>access_logs := access_logs db @ logs\<rparr>;
          db = db\<lparr>violations := violations db @ viols\<rparr>
      in (db, length logs, length viols))"

subsection \<open>Resolving a violation\<close>

text \<open>
  \<^verbatim>\<open>update_one({"id": violation_id}, {"$set": {"resolved": True}})\<close> on the violations:
  the first document with that id is updated; the result is the collection and the
  number of documents matched (0 or 1).
\<close>

fun update_one_resolved :: "string \<Rightarrow> AccessViolation list \<Rightarrow> AccessViolation list \<times> nat" where
  "update_one_resolved vid [] = ([], 0)"
| "update_one_resolved vid (v # vs) =
     (if id_violation v = vid then (v\<lparr>resolved := True\<rparr> # vs, 1)
      else (case update_one_resolved vid vs of (vs', n) \<Rightarrow> (v # vs', n)))"

text \<open>The body of the \<^verbatim>\<open>try\<close> block: an exception raised is \<open>Inl\<close>.\<close>

definition resolve_violation_try ::
    "string \<Rightarrow> database \<Rightarrow> (http_exception + string) \<times> database" where
  "resolve_violation_try violation_id db =
     (case update_one_resolved violation_id (violations db) of
        (vs, matched_count) \<Rightarrow>
          (let db = db\<lparr>violations := vs\<rparr>
           in if matched_count = 0
              then (Inl (HTTPException 404 ''Violation not found''), db)
              else (Inr ''Violation resolved successfully'', db)))"

text \<open>
  The handler \<^verbatim>\<open>except Exception as e\<close> catches whatever the body raises,
  \<^verbatim>\<open>HTTPException\<close> being an \<^verbatim>\<open>Exception\<close>, and raises status 500 with \<^verbatim>\<open>str(e)\<close>
  as its detail. \<open>exc_str\<close> is that library function.
\<close>

definition resolve_violation ::
    "(http_exception \<Rightarrow> string) \<Rightarrow> string \<Rightarrow> database
      \<Rightarrow> (http_exception + string) \<times> database" where
  "resolve_violation exc_str violation_id db =
     (case resolve_violation_try violation_id db of
        (Inl e, db') \<Rightarrow> (Inl (HTTPException 500 (exc_str e)), db')
      | (Inr r, db') \<Rightarrow> (Inr r, db'))"

subsection \<open>Predefined queries\<close>

datatype json = JNull | JBool bool | JNumber rat | JString string

record query_response =
  query_type :: "json option"
  results_count :: nat
  results :: "UserAccessLog list"

text \<open>
  \<^verbatim>\<open>sort("access_time", -1)\<close>: most recent first. The documents found are returned
  as they are: the serialisation drops the key \<^verbatim>\<open>_id\<close> of the store, which the records
  here do not have.
\<close>

definition sort_access_time_desc :: "UserAccessLog list \<Rightarrow> UserAccessLog list" where
  "sort_access_time_desc logs = sort_key (\<lambda>l. - access_time l) logs"

definition execute_sql_query_try ::
    "(string \<rightharpoonup> json) \<Rightarrow> database \<Rightarrow> http_exception + query_response" where
  "execute_sql_query_try query_request db =
     (let query_type = query_request ''query_type'';
          logs = access_logs db;
          found =
            (if query_type = Some (JString ''unauthorized_access'') then
               Inr (take 50 (sort_access_time_desc (filter
                 (\<lambda>l. (access_result l = FAILED \<and> failed_attempts l > 3) \<or>
                      access_result l = SUSPICIOUS \<or>
                      (is_violation l = True \<and> violation_type l = Some UNAUTHORIZED_ACCESS))
                 logs)))
             else if query_type = Some (JString ''privilege_escalation'') then
               Inr (take 50 (sort_access_time_desc (filter
                 (\<lambda>l. privilege_changes l \<noteq> []) logs)))
             else if query_type = Some (JString ''segregation_conflicts'') then
               Inr (take 50 (sort_access_time_desc (filter
                 (\<lambda>l. violation_type l = Some SEGREGATION_DUTY_CONFLICT) logs)))
             else if query_type = Some (JString ''failed_logins'') then
               Inr (take 100 (sort_access_time_desc (filter
                 (\<lambda>l. access_result l = FAILED) logs)))
             else if query_type = Some (JString ''off_hours_access'') then
               Inr (take 50 (sort_access_time_desc (filter
                 (\<lambda>l. dt_hour (access_time l) < 7 \<or> dt_hour (access_time l) > 19) logs)))
             else Inl (HTTPException 400 ''Invalid query type''))
      in case found of
           Inl e \<Rightarrow> Inl e
         | Inr rs \<Rightarrow> Inr \<lparr>query_type = query_type, results_count = length rs, results = rs\<rparr>)"

definition execute_sql_query ::
    "(http_exception \<Rightarrow> string) \<Rightarrow> (string \<rightharpoonup> json) \<Rightarrow> database
      \<Rightarrow> http_exception + query_response" where
  "execute_sql_query exc_str query_request db =
     (case execute_sql_query_try query_request db of
        Inl e \<Rightarrow> Inl (HTTPException 500 (''Query execution failed: '' @ exc_str e))
      | Inr r \<Rightarrow> Inr r)"

subsection \<open>Dashboard statistics\<close>

text \<open>\<^verbatim>\<open>a / b\<close> on two integers is the exact quotient, rounded once.\<close>

definition int_true_div :: "int \<Rightarrow> int \<Rightarrow> rat" where
  "int_true_div a b = fl (of_int a / of_int b)"

definition compliance :: "nat \<Rightarrow> nat \<Rightarrow> rat" where
  "compliance total_logs active =
     (if total_logs > 0
      then max 0 (float_mul (int_true_div (int total_logs - int active) (int total_logs))
                            (float_of_int 100))
      else 100)"

definition get_dashboard_stats :: "datetime \<Rightarrow> database \<Rightarrow> DashboardStats" where
  "get_dashboard_stats now db =
     (let total_logs = length (access_logs db);
          active = length (filter (\<lambda>v. resolved v = False) (violations db));
          high_risk = length (remdups (map user_id
                        (filter (\<lambda>l. risk_score l > lit_0_6) (access_logs db))));
          today_start = now - now mod 86400000000;
          failed_today = length (filter
                           (\<lambda>l. access_result l = FAILED \<and> access_time l \<ge> today_start)
                           (access_logs db));
          week_start = now - timedelta_days 7;
          escalations_week = length (filter
                               (\<lambda>l. privilege_changes l \<noteq> [] \<and> access_time l \<ge> week_start)
                               (access_logs db))
      in \<lparr>total_access_logs = total_logs,
          active_violations = active,
          high_risk_users = high_risk,
          failed_logins_today = failed_today,
          privilege_escalations_week = escalations_week,
          compliance_score = py_round1 (compliance total_logs active)\<rparr>)"

text \<open>
  The compliance score as the specification words it, without the floor at zero:
  \<open>100 \<times> (total - active) / total\<close> rounded to one decimal, and 100 for no records.
\<close>

definition compliance_formula :: "nat \<Rightarrow> nat \<Rightarrow> rat" where
  "compliance_formula total_logs active =
     (if total_logs > 0
      then py_round1 (float_div (float_mul (float_of_int 100)
                                           (float_of_int (int total_logs - int active)))
                                (float_of_int (int total_logs)))
      else 100)"

subsection \<open>Access log filter\<close>

text \<open>
  The conditions a query puts on \<^verbatim>\<open>risk_score\<close> (\<^verbatim>\<open>$gte\<close>, \<^verbatim>\<open>$lt\<close>) and on
  \<^verbatim>\<open>is_violation\<close>; a key the query lacks puts none.
\<close>

datatype bound = GTE rat | LT rat

record log_query =
  q_is_violation :: "bool option"
  q_risk_score :: "bound list"

definition access_logs_query :: "bool \<Rightarrow> RiskLevel option \<Rightarrow> log_query" where
  "access_logs_query violations_only level =
     (let query = \<lparr>q_is_violation = None, q_risk_score = []\<rparr>;
          query = (if violations_only then query\<lparr>q_is_violation := Some True\<rparr> else query)
      in case level of
           None \<Rightarrow> query
         | Some CRITICAL \<Rightarrow> query\<lparr>q_risk_score := [GTE lit_0_8]\<rparr>
         | Some HIGH \<Rightarrow> query\<lparr>q_risk_score := [GTE lit_0_6, LT lit_0_8]\<rparr>
         | Some MEDIUM \<Rightarrow> query\<lparr>q_risk_score := [GTE lit_0_3, LT lit_0_6]\<rparr>
         | Some LOW \<Rightarrow> query\<lparr>q_risk_score := [LT lit_0_3]\<rparr>)"

fun in_bounds :: "bound list \<Rightarrow> rat \<Rightarrow> bool" where
  "in_bounds [] x = True"
| "in_bounds (GTE c # bs) x = (c \<le> x \<and> in_bounds bs x)"
| "in_bounds (LT c # bs) x = (x < c \<and> in_bounds bs x)"

definition matches :: "log_query \<Rightarrow> UserAccessLog \<Rightarrow> bool" where
  "matches query alog =
     ((case q_is_violation query of None \<Rightarrow> True | Some b \<Rightarrow> is_violation alog = b) \<and>
      in_bounds (q_risk_score query) (risk_score alog))"

text \<open>\<^verbatim>\<open>find(query).sort("access_time", -1).skip(skip).limit(limit)\<close>, for a positive limit.\<close>

definition get_access_logs ::
    "nat \<Rightarrow> nat \<Rightarrow> bool \<Rightarrow> RiskLevel option \<Rightarrow> database \<Rightarrow> UserAccessLog list" where
  "get_access_logs limit skip violations_only level db =
     take limit (drop skip (sort_access_time_desc
       (filter (matches (access_logs_query violations_only level)) (access_logs db))))"

subsection \<open>Risk assessment of a user\<close>

fun any_log :: "(UserAccessLog \<Rightarrow> bool) \<Rightarrow> UserAccessLog list \<Rightarrow> bool" where
  "any_log P [] = False"
| "any_log P (l # ls) = (P l \<or> any_log P ls)"

text \<open>The records of a user whose access time is not before \<open>week_ago\<close>.\<close>

definition recent_logs :: "string \<Rightarrow> datetime \<Rightarrow> database \<Rightarrow> UserAccessLog list" where
  "recent_logs uid week_ago db =
     filter (\<lambda>l. user_id l = uid \<and> access_time l \<ge> week_ago) (access_logs db)"

text \<open>\<^verbatim>\<open>sum(xs) / len(xs)\<close> on a list that is not empty.\<close>

definition mean :: "rat list \<Rightarrow> rat" where
  "mean xs = float_div (py_sum xs) (float_of_int (int (length xs)))"

text \<open>
  \<open>ai\<close> is the text the language model (or its fallback) returns for the records,
  \<open>aid\<close> the identifier and \<open>assessed_at\<close> the date of the new assessment. The cursor is
  read with \<^verbatim>\<open>to_list(100)\<close>. The body raises the 404 itself, and the handler
  \<^verbatim>\<open>except HTTPException: raise\<close> passes it on unchanged.
\<close>

definition get_user_risk_assessment ::
    "(UserAccessLog list \<Rightarrow> string) \<Rightarrow> string \<Rightarrow> datetime \<Rightarrow> datetime \<Rightarrow> string \<Rightarrow> database
      \<Rightarrow> (http_exception + RiskAssessment) \<times> database" where
  "get_user_risk_assessment ai aid assessed_at now uid db =
     (let week_ago = now - timedelta_days 7;
          logs = take 100 (recent_logs uid week_ago db)
      in if logs = [] then (Inl (HTTPException 404 ''No recent activity found for user''), db)
         else
           (let user_logs = logs;
                avg_risk_score = mean (map risk_score user_logs);
                level = determine_risk_level avg_risk_score;
                factors = [];
                factors = (if any_log (\<lambda>l. failed_attempts l > 3) user_logs
                           then factors @ [''Multiple failed login attempts''] else factors);
                factors = (if any_log (\<lambda>l. privilege_changes l \<noteq> []) user_logs
                           then factors @ [''Recent privilege changes''] else factors);
                factors = (if any_log (\<lambda>l. dt_hour (access_time l) < 7 \<or>
                                            dt_hour (access_time l) > 19) user_logs
                           then factors @ [''Off-hours access detected''] else factors);
                factors = (if length (filter is_violation user_logs) > 0
                           then factors @ [''Recent security violations''] else factors);
                ai_text = ai user_logs;
                recs = [];
                recs = (if avg_risk_score > lit_0_6
                        then recs @ [''Implement additional authentication factors''] else recs);
                recs = (if any_log (\<lambda>l. failed_attempts l > 5) user_logs
                        then recs @ [''Review account security and reset password''] else recs);
                recs = (if length factors > 2
                        then recs @ [''Conduct security awareness training''] else recs);
                recs = (if recs = []
                        then recs @ [''Continue monitoring user activity''] else recs);
                assessment =
                  \<lparr>id_assessment = aid,
                   user_id_a = uid,
                   assessment_date = assessed_at,
                   overall_risk_score = avg_risk_score,
                   risk_level = level,
                   risk_factors = factors,
                   recommendations = recs,
                   ai_analysis = Some ai_text\<rparr>
            in (Inr assessment,
                db\<lparr>risk_assessments := risk_assessments db @ [assessment]\<rparr>)))"

subsection \<open>Text of an exception\<close>

text \<open>
  \<^verbatim>\<open>str(e)\<close> of an \<^verbatim>\<open>HTTPException\<close> belongs to the web framework, and the two
  handlers above take it as a parameter. \<open>exception_str\<close> is the text current versions of
  the framework give, the status code and the detail; it instantiates the parameter
  in the examples.
\<close>

fun decimal :: "nat \<Rightarrow> string" where
  "decimal n =
     (if n < 10 then [char_of (n + 48)]
      else decimal (n div 10) @ [char_of (n mod 10 + 48)])"

definition exception_str :: "http_exception \<Rightarrow> string" where
  "exception_str e = decimal (status_code e) @ '': '' @ detail e"

text \<open>The text \<^verbatim>\<open>ai_analyze_patterns\<close> returns when the language model cannot be reached.\<close>

definition fallback_analysis :: "UserAccessLog list \<Rightarrow> string" where
  "fallback_analysis logs =
     ''AI analysis temporarily unavailable. Manual review recommended for comprehensive risk assessment.''"

subsection \<open>Example data\<close>

text \<open>Wednesday 2026-11-04, 12:00 UTC.\<close>

definition noon :: datetime where
  "noon = 1793793600000000"

definition sample_log :: UserAccessLog where
  "sample_log =
     \<lparr>id_log = ''log-1'',
      user_id = ''USR001'',
      username = ''john.doe'',
      user_role = ADMIN,
      access_time = noon,
      ip_address = ''192.168.1.100'',
      location = ''New York, NY'',
      resource_accessed = ''HR System'',
      access_result = SUCCESS,
      session_duration_minutes = Some 30,
      failed_attempts = 0,
      privilege_changes = [],
      is_violation = False,
      violation_type = None,
      risk_score = 0,
      created_at = noon\<rparr>"

definition sample_draw :: draw where
  "sample_draw =
     \<lparr>d_user = (''USR001'', ''john.doe'', ADMIN),
      d_ip_loc = (''192.168.1.100'', ''New York, NY''),
      d_resource = ''HR System'',
      d_now = noon,
      d_days_back = 0,
      d_hour = 12,
      d_minute = 0,
      d_access_result = FAILED,
      d_failed_attempts = 10,
      d_privilege_changes = [''elevated_to_admin''],
      d_session_duration = None,
      d_log_id = ''log-1'',
      d_created_at = noon,
      d_violation_id = ''v-1'',
      d_detected_at = noon\<rparr>"

definition sample_violation :: AccessViolation where
  "sample_violation =
     \<lparr>id_violation = ''v-1'',
      log_id = ''log-1'',
      violation_type_v = FAILED_AUTHENTICATION,
      severity = HIGH,
      description = (lit_0_6, 4, 0, FAILED),
      detected_at = noon,
      resolved = False\<rparr>"

text \<open>One record and two open violations; one violation, already resolved.\<close>

definition db_two_open :: database where
  "db_two_open =
     \<lparr>access_logs = [sample_log],
      violations = [sample_violation, sample_violation\<lparr>id_violation := ''v-2''\<rparr>],
      risk_assessments = []\<rparr>"

definition db_resolved :: database where
  "db_resolved =
     \<lparr>access_logs = [sample_log],
      violations = [sample_violation\<lparr>resolved := True\<rparr>],
      risk_assessments = []\<rparr>"

text \<open>Ten records, three open violations and a resolved one.\<close>

definition db_ten :: database where
  "db_ten =
     \<lparr>access_logs = replicate 10 sample_log,
      violations = replicate 3 sample_violation @ [sample_violation\<lparr>resolved := True\<rparr>],
      risk_assessments = []\<rparr>"

text \<open>
  One user with 101 records of the same instant: a hundred of score 0, then one of
  score 1.
\<close>

definition db_101 :: database where
  "db_101 =
     \<lparr>access_logs = replicate 100 sample_log @ [sample_log\<lparr>risk_score := 1\<rparr>],
      violations = [],
      risk_assessments = []\<rparr>"

text \<open>Eighty records and twenty-nine open violations.\<close>

definition db_eighty :: database where
  "db_eighty =
     \<lparr>access_logs = replicate 80 sample_log,
      violations = replicate 29 sample_violation,
      risk_assessments = []\<rparr>"

section \<open>Properties of the rounding\<close>

lemma pow2_bitlen:
  assumes "0 < (p::int)"
  shows "power_int 2 (bitlen p - 1) \<le> (of_int p :: rat)" and "(of_int p :: rat) < power_int 2 (bitlen p)"
proof -
  from assms have b: "1 \<le> bitlen p"
    using bitlen_eq_zero_iff [of p] bitlen_nonneg [of p] by linarith
  from bitlen_bounds [OF assms]
  have lo: "2 ^ nat (bitlen p - 1) \<le> p" and hi: "p < 2 ^ nat (bitlen p)" by simp_all
  from lo have "(of_int (2 ^ nat (bitlen p - 1)) :: rat) \<le> of_int p"
    by (simp only: of_int_le_iff)
  then show "power_int 2 (bitlen p - 1) \<le> (of_int p :: rat)"
    using b by (simp add: power_int_def)
  from hi have "(of_int p :: rat) < of_int (2 ^ nat (bitlen p))"
    by (simp only: of_int_less_iff)
  then show "(of_int p :: rat) < power_int 2 (bitlen p)"
    using b by (simp add: power_int_def)
qed

lemma ilog2_bounds:
  assumes "0 < x"
  shows "power_int 2 (ilog2 x) \<le> x" and "x < power_int 2 (ilog2 x + 1)"
proof -
  obtain p q where pq: "quotient_of x = (p, q)" by (cases "quotient_of x")
  then have q: "0 < q" and x: "x = of_int p / of_int q"
    by (simp_all add: quotient_of_denom_pos quotient_of_div)
  from assms x q have p: "0 < p"
    by (simp add: zero_less_divide_iff)
  define k where "k = bitlen p - bitlen q"
  have il: "ilog2 x = (if power_int 2 k \<le> x then k else k - 1)"
    by (simp add: ilog2_def pq k_def Let_def)
  have qpos: "(0::rat) < of_int q" using q by simp
  have "x * of_int q = of_int p" using x q by simp
  have up: "x < power_int 2 (k + 1)"
  proof -
    have "of_int p < (power_int 2 (bitlen p) :: rat)" by (rule pow2_bitlen [OF p])
    also have "\<dots> = power_int 2 (k + 1) * power_int 2 (bitlen q - 1)"
      by (simp add: k_def flip: power_int_add)
    also have "\<dots> \<le> power_int 2 (k + 1) * of_int q"
      by (intro mult_left_mono pow2_bitlen [OF q]) simp
    finally have "of_int p < power_int 2 (k + 1) * (of_int q :: rat)" .
    then show ?thesis using qpos by (simp add: x pos_divide_less_eq)
  qed
  have lo: "power_int 2 (k - 1) \<le> x"
  proof -
    have "power_int 2 (k - 1) * of_int q \<le> power_int 2 (k - 1) * (power_int 2 (bitlen q) :: rat)"
      by (intro mult_left_mono less_imp_le [OF pow2_bitlen(2) [OF q]]) simp
    also have "\<dots> = power_int 2 (bitlen p - 1)"
      by (simp add: k_def flip: power_int_add)
    also have "\<dots> \<le> of_int p" by (rule pow2_bitlen [OF p])
    finally show ?thesis using qpos by (simp add: x pos_le_divide_eq)
  qed
  show "power_int 2 (ilog2 x) \<le> x" using lo by (simp add: il)
  show "x < power_int 2 (ilog2 x + 1)" using up by (auto simp add: il not_le)
qed

lemma ilog2_unique:
  assumes "power_int 2 n \<le> x" and "x < power_int 2 (n + 1)"
  shows "ilog2 x = n"
proof -
  have "(0::rat) < power_int 2 n" by simp
  with assms have pos: "0 < x" by linarith
  note b = ilog2_bounds [OF pos]
  have "\<not> ilog2 x < n"
  proof
    assume "ilog2 x < n"
    then have "ilog2 x + 1 \<le> n" by simp
    then have "(power_int 2 (ilog2 x + 1) :: rat) \<le> power_int 2 n"
      by (intro power_int_increasing) simp_all
    with b(2) assms(1) show False by linarith
  qed
  moreover have "\<not> n < ilog2 x"
  proof
    assume "n < ilog2 x"
    then have "n + 1 \<le> ilog2 x" by simp
    then have "(power_int 2 (n + 1) :: rat) \<le> power_int 2 (ilog2 x)"
      by (intro power_int_increasing) simp_all
    with b(1) assms(2) show False by linarith
  qed
  ultimately show ?thesis by linarith
qed

lemma round_half_even_of_int: "round_half_even (of_int n) = n"
  by (simp add: round_half_even_def)

lemma round_half_even_floor: "\<lfloor>x\<rfloor> \<le> round_half_even x"
  by (simp add: round_half_even_def Let_def)

lemma round_half_even_ceil: "round_half_even x \<le> \<lfloor>x\<rfloor> + 1"
  by (simp add: round_half_even_def Let_def)

lemma round_half_even_lower:
  assumes "of_int a \<le> x"
  shows "a \<le> round_half_even x"
proof -
  from assms have "a \<le> \<lfloor>x\<rfloor>" by (simp add: le_floor_iff)
  with round_half_even_floor [of x] show ?thesis by linarith
qed

lemma round_half_even_upper:
  assumes "x \<le> of_int b"
  shows "round_half_even x \<le> b"
proof (cases "x = of_int b")
  case True
  then show ?thesis by (simp add: round_half_even_of_int)
next
  case False
  with assms have "x < of_int b" by simp
  then have "\<lfloor>x\<rfloor> < b" by (simp add: floor_less_iff)
  with round_half_even_ceil [of x] show ?thesis by linarith
qed

lemma pow2_split: "(power_int 2 (a + b) :: rat) = power_int 2 a * power_int 2 b"
  by (rule power_int_add) simp

lemma of_int_pow2: "(of_int (2 ^ n) :: rat) = power_int 2 (int n)"
  by simp

lemma fl_pos_form:
  assumes "0 < x"
  defines "e \<equiv> ilog2 x - 52"
  defines "m \<equiv> round_half_even (x / power_int 2 e)"
  shows "fl x = of_int m * power_int 2 e" and "2 ^ 52 \<le> m" and "m \<le> 2 ^ 53"
proof -
  from assms(1) show "fl x = of_int m * power_int 2 e"
    by (simp add: fl_def Let_def e_def m_def)
  have pe: "(0::rat) < power_int 2 e" by simp
  have "ilog2 x = int 52 + e" by (simp add: e_def)
  then have "(power_int 2 (ilog2 x) :: rat) = power_int 2 (int 52) * power_int 2 e"
    by (simp only: pow2_split)
  with ilog2_bounds(1) [OF assms(1)] have "power_int 2 (int 52) * power_int 2 e \<le> x" by simp
  with pe have "(power_int 2 (int 52) :: rat) \<le> x / power_int 2 e"
    by (simp only: pos_le_divide_eq)
  then have "of_int (2 ^ 52) \<le> x / power_int 2 e" by (simp only: of_int_pow2)
  then show "2 ^ 52 \<le> m" unfolding m_def by (rule round_half_even_lower)
  have "ilog2 x + 1 = int 53 + e" by (simp add: e_def)
  then have "(power_int 2 (ilog2 x + 1) :: rat) = power_int 2 (int 53) * power_int 2 e"
    by (simp only: pow2_split)
  with ilog2_bounds(2) [OF assms(1)] have "x < power_int 2 (int 53) * power_int 2 e" by simp
  with pe have "x / power_int 2 e < (power_int 2 (int 53) :: rat)"
    by (simp only: pos_divide_less_eq)
  then have "x / power_int 2 e \<le> of_int (2 ^ 53)" by (simp only: of_int_pow2 less_imp_le)
  then show "m \<le> 2 ^ 53" unfolding m_def by (rule round_half_even_upper)
qed

lemma fl_pow2: "fl (power_int 2 n) = power_int 2 n"
proof -
  let ?y = "power_int 2 n :: rat"
  have pos: "0 < ?y" by simp
  have "?y < power_int 2 (n + 1)" by (intro power_int_strict_increasing) simp_all
  then have il: "ilog2 ?y = n" by (intro ilog2_unique) simp_all
  have "n = int 52 + (n - 52)" by simp
  then have sp: "?y = power_int 2 (int 52) * power_int 2 (n - 52)"
    by (metis pow2_split)
  then have "?y / power_int 2 (n - 52) = of_int (2 ^ 52)"
    by (simp only: of_int_pow2) simp
  then have "round_half_even (?y / power_int 2 (n - 52)) = 2 ^ 52"
    by (simp only: round_half_even_of_int)
  then have "fl ?y = of_int (2 ^ 52) * power_int 2 (n - 52)"
    using pos by (simp add: fl_def Let_def il del: of_int_power of_int_numeral)
  also have "\<dots> = ?y" by (simp only: of_int_pow2 sp)
  finally show ?thesis .
qed

lemma fl_exact:
  assumes "2 ^ 52 \<le> m" and "m \<le> 2 ^ 53"
  shows "fl (of_int m * power_int 2 e) = of_int m * power_int 2 e"
proof (cases "m = 2 ^ 53")
  case True
  have "(of_int m * power_int 2 e :: rat) = power_int 2 (int 53 + e)"
    by (simp only: True of_int_pow2 pow2_split)
  then show ?thesis by (simp only: fl_pow2)
next
  case False
  let ?y = "of_int m * power_int 2 e :: rat"
  from False assms have lt: "m < 2 ^ 53" by simp
  have "(0::int) < 2 ^ 52" by simp
  with assms(1) have m0: "0 < m" by linarith
  have "(of_int (2 ^ 52) :: rat) \<le> of_int m" using assms(1) by (simp only: of_int_le_iff)
  then have "power_int 2 (int 52) * power_int 2 e \<le> ?y"
    unfolding of_int_pow2 by (intro mult_right_mono) simp_all
  then have lo: "power_int 2 (int 52 + e) \<le> ?y" by (simp only: pow2_split)
  have "(of_int m :: rat) < of_int (2 ^ 53)" using lt by (simp only: of_int_less_iff)
  then have "?y < power_int 2 (int 53) * power_int 2 e"
    unfolding of_int_pow2 by (intro mult_strict_right_mono) simp_all
  then have "?y < power_int 2 (int 53 + e)" by (simp only: pow2_split)
  moreover have "int 53 + e = int 52 + e + 1" by simp
  ultimately have hi: "?y < power_int 2 (int 52 + e + 1)" by simp
  have il: "ilog2 ?y = int 52 + e" by (rule ilog2_unique [OF lo hi])
  have pos: "0 < ?y" using m0 by simp
  have "?y / power_int 2 e = of_int m" by simp
  with il pos show ?thesis
    by (simp add: fl_def Let_def round_half_even_of_int)
qed

lemma fl_minus: "fl (- x) = - fl x"
  by (simp add: fl_def Let_def)

lemma fl_nonneg:
  assumes "0 \<le> x"
  shows "0 \<le> fl x"
proof (cases "x = 0")
  case True
  then show ?thesis by (simp add: fl_def)
next
  case False
  with assms have pos: "0 < x" by simp
  have "(0::int) < 2 ^ 52" by simp
  with fl_pos_form(2) [OF pos] have "0 \<le> round_half_even (x / power_int 2 (ilog2 x - 52))"
    by linarith
  then show ?thesis using pos by (simp add: fl_def Let_def)
qed

lemma fl_idem: "fl (fl x) = fl x"
proof -
  have pos: "fl (fl y) = fl y" if "0 < y" for y
    using fl_pos_form [OF that] fl_exact by metis
  consider "x = 0" | "0 < x" | "x < 0" by linarith
  then show ?thesis
  proof cases
    case 1 then show ?thesis by (simp add: fl_def)
  next
    case 2 then show ?thesis by (rule pos)
  next
    case 3
    then have "0 < - x" by simp
    from pos [OF this] show ?thesis by (simp add: fl_minus)
  qed
qed

lemma fl_nonpos:
  assumes "x \<le> 0"
  shows "fl x \<le> 0"
proof -
  from assms have "0 \<le> fl (- x)" by (intro fl_nonneg) simp
  then show ?thesis by (simp add: fl_minus)
qed

lemma float_add_nonneg: "0 \<le> x \<Longrightarrow> 0 \<le> y \<Longrightarrow> 0 \<le> float_add x y"
  by (simp add: float_add_def fl_nonneg)

lemma float_mul_nonneg: "0 \<le> x \<Longrightarrow> 0 \<le> y \<Longrightarrow> 0 \<le> float_mul x y"
  by (simp add: float_mul_def fl_nonneg)

lemma float_of_int_nonneg: "0 \<le> n \<Longrightarrow> 0 \<le> float_of_int n"
  by (simp add: float_of_int_def fl_nonneg)

text \<open>The literals, as fractions.\<close>

lemma lit_values:
  "lit_0_2 = 3602879701896397 / 18014398509481984"
  "lit_0_3 = 5404319552844595 / 18014398509481984"
  "lit_0_5 = 1 / 2"
  "lit_0_6 = 5404319552844595 / 9007199254740992"
  "lit_0_8 = 3602879701896397 / 4503599627370496"
  by code_simp+

lemma lit_order: "lit_0_3 < lit_0_6" "lit_0_6 < lit_0_8" "0 < lit_0_3" "lit_0_8 < 1"
  by (simp_all add: lit_values)

lemma lit_nonneg: "0 \<le> lit_0_2" "0 \<le> lit_0_3" "0 \<le> lit_0_5" "0 \<le> lit_0_8"
  by (simp_all add: lit_values)

text \<open>
  Floating point is not exact arithmetic: three times \<open>0.2\<close>, and \<open>0.4 + 0.2\<close>, are the
  number after \<open>0.6\<close>, while \<open>0.3 + 0.3\<close> is \<open>0.6\<close>.
\<close>

lemma float_three_fifths:
  "float_mul (float_of_int 3) lit_0_2 = lit_0_6 + 1 / 2 ^ 53"
  "float_add (float_mul (float_of_int 2) lit_0_2) lit_0_2 = lit_0_6 + 1 / 2 ^ 53"
  "float_add lit_0_3 lit_0_3 = lit_0_6"
  by code_simp+

section \<open>Time\<close>

lemma replace_hour_generic:
  fixes t M h m :: int
  assumes M: "0 < M" and h: "0 \<le> h" "h < 24" and m: "0 \<le> m" "m < 60"
  shows "((t - ((t div (M * 60)) mod 24) * (M * 60) - ((t div M) mod 60) * M
            + h * (M * 60) + m * M) div (M * 60)) mod 24 = h"
proof -
  define q1 where "q1 = t div M"
  define r where "r = t mod M"
  define q2 where "q2 = q1 div 60"
  define d where "d = q2 div 24"
  have r: "0 \<le> r" "r < M" using M by (simp_all add: r_def)
  have t: "t = M * q1 + r" by (simp add: q1_def r_def)
  have q1: "q1 = 60 * q2 + q1 mod 60" by (simp add: q2_def)
  have q2: "q2 = 24 * d + q2 mod 24" by (simp add: d_def)
  have tH: "t div (M * 60) = q2"
    using M by (simp add: q1_def q2_def zdiv_zmult2_eq)
  let ?t' = "t - (q2 mod 24) * (M * 60) - (q1 mod 60) * M + h * (M * 60) + m * M"
  have "?t' = M * (60 * (24 * d + h) + m) + r"
  proof -
    have "M * q1 + r = M * (60 * q2 + q1 mod 60) + r"
      by (rule arg_cong [where f = "\<lambda>x. M * x + r"]) (rule q1)
    also have "\<dots> = M * (60 * (24 * d + q2 mod 24) + q1 mod 60) + r"
      by (rule arg_cong [where f = "\<lambda>x. M * (60 * x + q1 mod 60) + r"]) (rule q2)
    finally have "t = M * (60 * (24 * d + q2 mod 24) + q1 mod 60) + r"
      using t by simp
    then show ?thesis by (simp add: algebra_simps)
  qed
  then have "?t' div M = 60 * (24 * d + h) + m"
    using r M by (simp add: div_pos_pos_trivial)
  then have "?t' div (M * 60) = (60 * (24 * d + h) + m) div 60"
    using M by (simp add: zdiv_zmult2_eq)
  also have "\<dots> = 24 * d + h" using m by simp
  finally have "(?t' div (M * 60)) mod 24 = (24 * d + h) mod 24" by simp
  also have "\<dots> = h" using h by simp
  finally show ?thesis by (simp add: tH q1_def)
qed

text \<open>The hour of a time whose hour and minute were replaced is the new hour.\<close>

lemma dt_hour_replace:
  assumes "0 \<le> h" "h < 24" "0 \<le> m" "m < 60"
  shows "dt_hour (dt_replace t h m) = h"
proof -
  have c: "(60000000::int) * 60 = 3600000000" by simp
  have "(0::int) < 60000000" by simp
  from replace_hour_generic [OF this assms, of t]
  show ?thesis unfolding dt_hour_def dt_replace_def dt_minute_def c .
qed

text \<open>
  So the hour the generator tests for the violation type is the hour of the record's
  access time, which the scorer reads.
\<close>

lemma generate_record_hour:
  assumes "0 \<le> d_hour d" "d_hour d < 24" "0 \<le> d_minute d" "d_minute d < 60"
  shows "dt_hour (access_time (fst (generate_record d))) = d_hour d"
  using dt_hour_replace [OF assms]
  by (simp add: generate_record_def flag_violation_def new_log_def Let_def)

section \<open>Risk level\<close>

text \<open>
  C6. The risk level is a function of the score alone, defined for every score:
  critical exactly from \<open>0.8\<close> up, high exactly on \<open>[0.6, 0.8)\<close>, medium exactly on
  \<open>[0.3, 0.6)\<close> and low exactly below \<open>0.3\<close>; the lower bound of each band belongs to it,
  so \<open>0.6\<close> is high and \<open>0.8\<close> is critical.
\<close>

theorem determine_risk_level_bands:
  "(determine_risk_level score = CRITICAL \<longleftrightarrow> lit_0_8 \<le> score) \<and>
   (determine_risk_level score = HIGH \<longleftrightarrow> lit_0_6 \<le> score \<and> score < lit_0_8) \<and>
   (determine_risk_level score = MEDIUM \<longleftrightarrow> lit_0_3 \<le> score \<and> score < lit_0_6) \<and>
   (determine_risk_level score = LOW \<longleftrightarrow> score < lit_0_3) \<and>
   determine_risk_level lit_0_6 = HIGH \<and>
   determine_risk_level lit_0_8 = CRITICAL"
  using lit_order by (auto simp add: determine_risk_level_def)

section \<open>Access log filter\<close>

text \<open>
  C10. For a stored record whose risk score lies in \<open>[0, 1]\<close> and a requested level, the
  query that \<^verbatim>\<open>GET /access-logs\<close> builds for the level selects the record if and only
  if the risk-level classifier maps the record's score to that level.
\<close>

theorem risk_level_filter_agrees:
  assumes "0 \<le> risk_score alog" and "risk_score alog \<le> 1"
  shows "matches (access_logs_query False (Some level)) alog
           \<longleftrightarrow> determine_risk_level (risk_score alog) = level"
  using lit_order
  by (cases level) (auto simp add: matches_def access_logs_query_def determine_risk_level_def)

text \<open>A record of score \<open>0.6\<close> is selected by the filter for high, and is high.\<close>

theorem risk_level_filter_agrees_witness:
  "0 \<le> risk_score (sample_log\<lparr>risk_score := lit_0_6\<rparr>) \<and>
   risk_score (sample_log\<lparr>risk_score := lit_0_6\<rparr>) \<le> 1 \<and>
   matches (access_logs_query False (Some HIGH)) (sample_log\<lparr>risk_score := lit_0_6\<rparr>) \<and>
   determine_risk_level (risk_score (sample_log\<lparr>risk_score := lit_0_6\<rparr>)) = HIGH"
proof -
  have h: "0 \<le> risk_score (sample_log\<lparr>risk_score := lit_0_6\<rparr>)"
          "risk_score (sample_log\<lparr>risk_score := lit_0_6\<rparr>) \<le> 1"
    by (simp_all add: lit_values)
  have "determine_risk_level (risk_score (sample_log\<lparr>risk_score := lit_0_6\<rparr>)) = HIGH"
    by (simp add: determine_risk_level_def lit_values)
  with h risk_level_filter_agrees [OF h, of HIGH] show ?thesis by simp
qed

section \<open>Risk score\<close>

lemma dt_weekday_weekend: "5 \<le> dt_weekday t \<longleftrightarrow> dt_weekday t = 5 \<or> dt_weekday t = 6"
proof -
  have "dt_weekday t < 7" by (simp add: dt_weekday_def)
  then show ?thesis by auto
qed

lemma calculate_risk_score_nonneg:
  assumes "0 \<le> failed_attempts alog"
  shows "0 \<le> calculate_risk_score alog"
proof -
  let ?s1 = "float_add 0 (float_mul (float_of_int (failed_attempts alog)) lit_0_2)"
  let ?s2 = "float_add ?s1
               (float_mul (float_of_int (int (length (privilege_changes alog)))) lit_0_3)"
  have s1: "0 \<le> ?s1"
    using assms by (intro float_add_nonneg float_mul_nonneg float_of_int_nonneg lit_nonneg) simp
  have s2: "0 \<le> ?s2"
    by (intro float_add_nonneg float_mul_nonneg float_of_int_nonneg lit_nonneg s1) simp
  show ?thesis
    unfolding calculate_risk_score_def Let_def
    by (simp add: s2 float_add_nonneg lit_nonneg)
qed

text \<open>
  C3. The risk scorer is a function of the record, defined for every record, and its
  value is the sum of section 4.1 capped at 1: \<open>0.2 \<times> failed_attempts\<close>, plus \<open>0.3\<close> times
  the number of privilege changes, plus \<open>0.5\<close> for a failed or \<open>0.8\<close> for a suspicious
  result, plus \<open>0.3\<close> for an hour before 7 or after 19, plus \<open>0.2\<close> on Saturday or
  Sunday, the terms added in this order in floating point. For a record whose
  \<open>failed_attempts\<close> is not negative the score lies in \<open>[0, 1]\<close>.
\<close>

theorem risk_score_formula_and_range:
  "calculate_risk_score alog = risk_score_formula alog \<and>
   (0 \<le> failed_attempts alog \<longrightarrow>
      0 \<le> calculate_risk_score alog \<and> calculate_risk_score alog \<le> 1)"
proof -
  have "calculate_risk_score alog = risk_score_formula alog"
    by (simp add: calculate_risk_score_def risk_score_formula_def Let_def float_add_def
        float_mul_def fl_idem mult.commute dt_weekday_weekend)
  moreover have "calculate_risk_score alog \<le> 1"
    by (simp add: calculate_risk_score_def Let_def)
  ultimately show ?thesis using calculate_risk_score_nonneg by blast
qed

text \<open>One failed attempt with a failed result, on a Wednesday at noon, scores \<open>0.7\<close>.\<close>

lemma sample_failed_score:
  "calculate_risk_score (sample_log\<lparr>failed_attempts := 1, access_result := FAILED\<rparr>) = fl (7 / 10)"
  by code_simp

theorem risk_score_formula_and_range_witness:
  "0 \<le> failed_attempts (sample_log\<lparr>failed_attempts := 1, access_result := FAILED\<rparr>) \<and>
   calculate_risk_score (sample_log\<lparr>failed_attempts := 1, access_result := FAILED\<rparr>) =
     risk_score_formula (sample_log\<lparr>failed_attempts := 1, access_result := FAILED\<rparr>) \<and>
   calculate_risk_score (sample_log\<lparr>failed_attempts := 1, access_result := FAILED\<rparr>) =
     fl (7 / 10) \<and>
   0 \<le> calculate_risk_score (sample_log\<lparr>failed_attempts := 1, access_result := FAILED\<rparr>) \<and>
   calculate_risk_score (sample_log\<lparr>failed_attempts := 1, access_result := FAILED\<rparr>) \<le> 1"
  using risk_score_formula_and_range
          [of "sample_log\<lparr>failed_attempts := 1, access_result := FAILED\<rparr>"]
        sample_failed_score
  by simp

section \<open>Violations\<close>

text \<open>
  C4. A record the generator produces is flagged as a violation if and only if its
  risk score is above \<open>0.6\<close>, or its \<open>failed_attempts\<close> is above 3, or it has a privilege
  change, or its result is suspicious. The test, applied to a record not flagged before
  (as the generator builds it), flags it exactly in these cases; so a record whose score
  is \<open>0.6\<close> and which meets none of the other three conditions is not flagged.
\<close>

theorem violation_flag_rule:
  "(is_violation (fst (generate_record d)) \<longleftrightarrow>
      lit_0_6 < risk_score (fst (generate_record d)) \<or>
      3 < failed_attempts (fst (generate_record d)) \<or>
      privilege_changes (fst (generate_record d)) \<noteq> [] \<or>
      access_result (fst (generate_record d)) = SUSPICIOUS) \<and>
   (\<not> is_violation alog \<longrightarrow>
      (is_violation (fst (flag_violation vid now hour alog)) \<longleftrightarrow>
         lit_0_6 < risk_score alog \<or> 3 < failed_attempts alog \<or>
         privilege_changes alog \<noteq> [] \<or> access_result alog = SUSPICIOUS)) \<and>
   (\<not> is_violation alog \<and> risk_score alog = lit_0_6 \<and> failed_attempts alog \<le> 3 \<and>
    privilege_changes alog = [] \<and> access_result alog \<noteq> SUSPICIOUS
      \<longrightarrow> \<not> is_violation (fst (flag_violation vid now hour alog)))"
  by (auto simp add: generate_record_def flag_violation_def new_log_def Let_def)

text \<open>A record of score \<open>0.6\<close> with nothing else against it: high, and not flagged.\<close>

theorem violation_flag_rule_witness:
  "\<not> is_violation (sample_log\<lparr>risk_score := lit_0_6\<rparr>) \<and>
   risk_score (sample_log\<lparr>risk_score := lit_0_6\<rparr>) = lit_0_6 \<and>
   failed_attempts (sample_log\<lparr>risk_score := lit_0_6\<rparr>) \<le> 3 \<and>
   privilege_changes (sample_log\<lparr>risk_score := lit_0_6\<rparr>) = [] \<and>
   access_result (sample_log\<lparr>risk_score := lit_0_6\<rparr>) \<noteq> SUSPICIOUS \<and>
   \<not> is_violation (fst (flag_violation ''v-1'' noon 12 (sample_log\<lparr>risk_score := lit_0_6\<rparr>))) \<and>
   determine_risk_level (risk_score (sample_log\<lparr>risk_score := lit_0_6\<rparr>)) = HIGH"
proof -
  have h: "\<not> is_violation (sample_log\<lparr>risk_score := lit_0_6\<rparr>)"
    by (simp add: sample_log_def)
  have "determine_risk_level (risk_score (sample_log\<lparr>risk_score := lit_0_6\<rparr>)) = HIGH"
    by (simp add: determine_risk_level_def lit_values)
  with h violation_flag_rule [of sample_draw "sample_log\<lparr>risk_score := lit_0_6\<rparr>" "''v-1''" noon 12]
  show ?thesis
    by (simp add: sample_log_def)
qed

text \<open>
  The scorer does not produce the score \<open>0.6\<close> for three failed attempts alone: it
  produces the number after it, and the generator's test flags the record.
\<close>

lemma three_failed_attempts_flagged:
  "risk_score (fst (generate_record
     (sample_draw\<lparr>d_access_result := SUCCESS, d_failed_attempts := 3,
                   d_privilege_changes := []\<rparr>))) = lit_0_6 + 1 / 2 ^ 53 \<and>
   is_violation (fst (generate_record
     (sample_draw\<lparr>d_access_result := SUCCESS, d_failed_attempts := 3,
                   d_privilege_changes := []\<rparr>)))"
  by code_simp

text \<open>
  C5. For a record the generator flags, the violation type is the first that applies in
  the order: a privilege change gives privilege escalation; more than 3 failed attempts,
  failed authentication; a suspicious result, unusual activity; an hour before 7 or
  after 19, unauthorized access; otherwise segregation-of-duty conflict. The violation
  document carries the same type. A record with a privilege change and 10 failed attempts
  is a privilege escalation.
\<close>

theorem violation_type_priority:
  assumes "is_violation (fst (generate_record d))"
  shows "violation_type (fst (generate_record d)) =
           Some (if d_privilege_changes d \<noteq> [] then PRIVILEGE_ESCALATION
                 else if 3 < d_failed_attempts d then FAILED_AUTHENTICATION
                 else if d_access_result d = SUSPICIOUS then UNUSUAL_ACTIVITY
                 else if d_hour d < 7 \<or> 19 < d_hour d then UNAUTHORIZED_ACCESS
                 else SEGREGATION_DUTY_CONFLICT) \<and>
         map (\<lambda>v. Some (violation_type_v v)) (snd (generate_record d)) =
           [violation_type (fst (generate_record d))] \<and>
         (d_privilege_changes d \<noteq> [] \<and> d_failed_attempts d = 10
            \<longrightarrow> violation_type (fst (generate_record d)) = Some PRIVILEGE_ESCALATION)"
  using assms
  by (auto simp add: generate_record_def flag_violation_def new_log_def Let_def split: if_splits)

theorem violation_type_priority_witness:
  "is_violation (fst (generate_record sample_draw)) \<and>
   d_privilege_changes sample_draw \<noteq> [] \<and> d_failed_attempts sample_draw = 10 \<and>
   violation_type (fst (generate_record sample_draw)) = Some PRIVILEGE_ESCALATION \<and>
   map (\<lambda>v. Some (violation_type_v v)) (snd (generate_record sample_draw)) =
     [Some PRIVILEGE_ESCALATION]"
proof -
  have h: "is_violation (fst (generate_record sample_draw))"
    by (simp add: generate_record_def flag_violation_def new_log_def Let_def sample_draw_def)
  from violation_type_priority [OF h] show ?thesis
    using h by (simp add: sample_draw_def)
qed

section \<open>Resolving a violation\<close>

lemma update_one_unmatched:
  "vid \<notin> id_violation ` set vs \<Longrightarrow> update_one_resolved vid vs = (vs, 0)"
  by (induction vs) auto

lemma update_one_matched:
  "vid \<in> id_violation ` set vs \<Longrightarrow> snd (update_one_resolved vid vs) = 1"
  by (induction vs) (auto split: prod.splits)

lemma update_one_again:
  "update_one_resolved vid (fst (update_one_resolved vid vs)) = update_one_resolved vid vs"
  by (induction vs) (auto split: prod.splits)

lemma update_one_settled:
  "(\<forall>v \<in> set vs. id_violation v = vid \<longrightarrow> resolved v)
     \<Longrightarrow> fst (update_one_resolved vid vs) = vs"
  by (induction vs) (auto split: prod.splits)

lemma update_one_one_way:
  "list_all2 (\<lambda>v v'. v' = v \<or> (\<not> resolved v \<and> v' = v\<lparr>resolved := True\<rparr>))
     vs (fst (update_one_resolved vid vs))"
proof (induction vs)
  case Nil
  then show ?case by simp
next
  case (Cons v vs)
  show ?case
  proof (cases "id_violation v = vid")
    case True
    have "v\<lparr>resolved := True\<rparr> = v" if "resolved v" using that by simp
    then show ?thesis using True by (auto simp add: list_all2_same)
  next
    case False
    with Cons show ?thesis by (auto split: prod.splits)
  qed
qed

lemma resolve_violation_unfold:
  "resolve_violation exc_str vid db =
     (if snd (update_one_resolved vid (violations db)) = 0
      then (Inl (HTTPException 500 (exc_str (HTTPException 404 ''Violation not found''))),
            db\<lparr>violations := fst (update_one_resolved vid (violations db))\<rparr>)
      else (Inr ''Violation resolved successfully'',
            db\<lparr>violations := fst (update_one_resolved vid (violations db))\<rparr>))"
  by (simp add: resolve_violation_def resolve_violation_try_def Let_def split: prod.splits)

text \<open>
  For every id that matches no stored violation the store is left as it was, and the
  exception that reaches the client has status 500: the 404 the body raises is caught
  by the handler of the same function.
\<close>

lemma resolve_unknown_id:
  assumes "vid \<notin> id_violation ` set (violations db)"
  shows "resolve_violation exc_str vid db =
           (Inl (HTTPException 500 (exc_str (HTTPException 404 ''Violation not found''))), db)"
  using assms by (simp add: resolve_violation_unfold update_one_unmatched)

text \<open>
  C1. Resolving an id that matches no stored violation should give status 404 with a
  detail text and leave the store unchanged. On a store whose violations are \<open>v-1\<close> and
  \<open>v-2\<close>, resolving \<open>v-9\<close> leaves the store unchanged and gives status 500, whose detail
  is the text of the 404 exception.
\<close>

theorem resolve_unknown_id_is_500:
  "resolve_violation exc_str ''v-9'' db_two_open =
     (Inl (HTTPException 500 (exc_str (HTTPException 404 ''Violation not found''))),
      db_two_open)"
  by (simp add: resolve_violation_unfold db_two_open_def sample_violation_def)

text \<open>
  C9. Resolving an id that matches a stored violation succeeds, and resolving it again
  gives the same response and the same store as the first time. When every stored
  violation with that id is already resolved the store does not change at all. Each
  document of the store either stays as it was or goes from unresolved to resolved:
  none goes back.
\<close>

theorem resolve_violation_idempotent:
  assumes "vid \<in> id_violation ` set (violations db)"
  shows "fst (resolve_violation exc_str vid db) = Inr ''Violation resolved successfully'' \<and>
         resolve_violation exc_str vid (snd (resolve_violation exc_str vid db)) =
           resolve_violation exc_str vid db \<and>
         ((\<forall>v \<in> set (violations db). id_violation v = vid \<longrightarrow> resolved v)
            \<longrightarrow> snd (resolve_violation exc_str vid db) = db) \<and>
         list_all2 (\<lambda>v v'. v' = v \<or> (\<not> resolved v \<and> v' = v\<lparr>resolved := True\<rparr>))
           (violations db) (violations (snd (resolve_violation exc_str vid db)))"
  using assms
  by (simp add: resolve_violation_unfold update_one_matched update_one_again
      update_one_settled update_one_one_way)

text \<open>The store's one violation is \<open>v-1\<close>, already resolved: resolving it changes nothing.\<close>

theorem resolve_violation_idempotent_witness:
  "''v-1'' \<in> id_violation ` set (violations db_resolved) \<and>
   map id_violation (violations db_resolved) = [''v-1''] \<and>
   map resolved (violations db_resolved) = [True] \<and>
   resolve_violation exception_str ''v-1'' db_resolved =
     (Inr ''Violation resolved successfully'', db_resolved)"
proof -
  have l: "map id_violation (violations db_resolved) = [''v-1'']"
          "map resolved (violations db_resolved) = [True]"
    by (simp_all add: db_resolved_def sample_violation_def)
  have h: "''v-1'' \<in> id_violation ` set (violations db_resolved)"
    by (simp add: db_resolved_def sample_violation_def)
  have r: "\<forall>v \<in> set (violations db_resolved). id_violation v = ''v-1'' \<longrightarrow> resolved v"
    by (simp add: db_resolved_def sample_violation_def)
  from resolve_violation_idempotent [OF h, of exception_str] r
  have "fst (resolve_violation exception_str ''v-1'' db_resolved) =
          Inr ''Violation resolved successfully''"
    and "snd (resolve_violation exception_str ''v-1'' db_resolved) = db_resolved"
    by blast+
  then have "resolve_violation exception_str ''v-1'' db_resolved =
     (Inr ''Violation resolved successfully'', db_resolved)"
    by (simp add: prod_eq_iff)
  with h l show ?thesis by blast
qed

section \<open>Predefined queries\<close>

text \<open>
  Whatever the request holds under \<^verbatim>\<open>query_type\<close>, if it is none of the five tags the
  exception that reaches the client has status 500.
\<close>

lemma execute_sql_query_invalid:
  assumes "query_request ''query_type'' \<notin> Some ` JString `
             {''unauthorized_access'', ''privilege_escalation'', ''segregation_conflicts'',
              ''failed_logins'', ''off_hours_access''}"
  shows "execute_sql_query exc_str query_request db =
           Inl (HTTPException 500
                 (''Query execution failed: '' @
                  exc_str (HTTPException 400 ''Invalid query type'')))"
  using assms by (simp add: execute_sql_query_def execute_sql_query_try_def Let_def)

text \<open>
  C2. A request whose \<^verbatim>\<open>query_type\<close> is none of the five tags should give status 400
  with the detail "Invalid query type". For the query type \<open>bogus\<close>, on any store, the
  response has status 500, and its detail is "Query execution failed: " followed by the
  text of the 400 exception.
\<close>

theorem bogus_query_type_is_500:
  "execute_sql_query exc_str [''query_type'' \<mapsto> JString ''bogus''] db =
     Inl (HTTPException 500
           (''Query execution failed: '' @ exc_str (HTTPException 400 ''Invalid query type'')))"
  by (simp add: execute_sql_query_def execute_sql_query_try_def Let_def)

section \<open>Compliance score\<close>

lemma float_hundred: "float_of_int 100 = 100"
  by code_simp

lemma py_round1_zero: "py_round1 0 = 0"
  by code_simp

lemma py_round1_hundred: "py_round1 100 = 100"
  by code_simp

text \<open>The floor at zero takes effect exactly when no record is left over.\<close>

lemma compliance_cases:
  "compliance t a =
     (if t = 0 then 100
      else if t \<le> a then 0
      else float_mul (int_true_div (int t - int a) (int t)) (float_of_int 100))"
proof -
  have neg: "max 0 (float_mul (int_true_div (int t - int a) (int t)) (float_of_int 100)) = 0"
    if "0 < t" and "t \<le> a"
  proof -
    from that have "(of_int (int t - int a) :: rat) / of_int (int t) \<le> 0"
      by (intro divide_nonpos_pos) simp_all
    then have "int_true_div (int t - int a) (int t) \<le> 0"
      unfolding int_true_div_def by (rule fl_nonpos)
    then have "int_true_div (int t - int a) (int t) * 100 \<le> 0"
      by (simp add: mult_le_0_iff)
    then have "float_mul (int_true_div (int t - int a) (int t)) (float_of_int 100) \<le> 0"
      unfolding float_mul_def float_hundred by (rule fl_nonpos)
    then show ?thesis by simp
  qed
  have pos: "max 0 (float_mul (int_true_div (int t - int a) (int t)) (float_of_int 100))
               = float_mul (int_true_div (int t - int a) (int t)) (float_of_int 100)"
    if "a < t"
  proof -
    from that have "0 \<le> (of_int (int t - int a) :: rat) / of_int (int t)"
      by simp
    then have "0 \<le> int_true_div (int t - int a) (int t)"
      unfolding int_true_div_def by (rule fl_nonneg)
    then have "0 \<le> int_true_div (int t - int a) (int t) * 100"
      by simp
    then have "0 \<le> float_mul (int_true_div (int t - int a) (int t)) (float_of_int 100)"
      unfolding float_mul_def float_hundred by (rule fl_nonneg)
    then show ?thesis by simp
  qed
  show ?thesis using neg pos by (auto simp add: compliance_def not_le)
qed

lemma compliance_ten_three: "py_round1 (compliance 10 3) = 70"
  by code_simp

text \<open>
  C7, amended. With \<open>total\<close> the number of access-log records and \<open>active\<close> the number
  of violation documents whose \<open>resolved\<close> is false, the compliance score of the
  dashboard statistics is 100 when \<open>total = 0\<close>, is 0 when \<open>0 < total \<le> active\<close>, and
  otherwise is \<open>(total - active) / total \<times> 100\<close>, the quotient taken first and both steps
  in floating point, rounded to one decimal. For \<open>total = 10\<close> and \<open>active = 3\<close> it is 70.
\<close>

theorem compliance_score_floored:
  "(let stats = get_dashboard_stats now db;
        total = total_access_logs stats;
        active = active_violations stats
    in total = length (access_logs db) \<and>
       active = length (filter (\<lambda>v. \<not> resolved v) (violations db)) \<and>
       compliance_score stats =
         (if total = 0 then 100
          else if total \<le> active then 0
          else py_round1 (float_mul (int_true_div (int total - int active) (int total))
                                    (float_of_int 100))) \<and>
       (total = 10 \<and> active = 3 \<longrightarrow> compliance_score stats = 70))"
proof -
  have "py_round1 (compliance t a) =
          (if t = 0 then 100 else if t \<le> a then 0
           else py_round1 (float_mul (int_true_div (int t - int a) (int t)) (float_of_int 100)))"
    for t a
    by (simp add: compliance_cases py_round1_zero py_round1_hundred)
  then show ?thesis
    using compliance_ten_three
    by (simp add: get_dashboard_stats_def Let_def)
qed

text \<open>Ten records and three open violations: 70.\<close>

theorem compliance_score_floored_witness:
  "total_access_logs (get_dashboard_stats noon db_ten) = 10 \<and>
   active_violations (get_dashboard_stats noon db_ten) = 3 \<and>
   compliance_score (get_dashboard_stats noon db_ten) = 70"
proof -
  have t: "total_access_logs (get_dashboard_stats noon db_ten) = 10"
    by (simp add: get_dashboard_stats_def Let_def db_ten_def)
  have a: "active_violations (get_dashboard_stats noon db_ten) = 3"
    by (simp add: get_dashboard_stats_def Let_def db_ten_def sample_violation_def)
  from compliance_score_floored [of noon db_ten]
  have "total_access_logs (get_dashboard_stats noon db_ten) = 10 \<and>
        active_violations (get_dashboard_stats noon db_ten) = 3
          \<longrightarrow> compliance_score (get_dashboard_stats noon db_ten) = 70"
    unfolding Let_def by blast
  with t a show ?thesis by blast
qed

text \<open>
  The formula as the specification words it fails on two stores. With one record and
  two open violations the score is 0, not \<open>-100\<close>. With eighty records and twenty-nine
  open violations the score is \<open>63.7\<close>, not \<open>63.8\<close>: the quotient \<open>51 / 80\<close> is rounded
  before it is multiplied, the product falls just below \<open>63.75\<close>, and the rounding to one
  decimal goes down.
\<close>

theorem compliance_formula_counterexample:
  "compliance_score (get_dashboard_stats noon db_two_open) = 0 \<and>
   compliance_formula (total_access_logs (get_dashboard_stats noon db_two_open))
                      (active_violations (get_dashboard_stats noon db_two_open)) = - 100 \<and>
   compliance_score (get_dashboard_stats noon db_eighty) = fl (637 / 10) \<and>
   compliance_formula (total_access_logs (get_dashboard_stats noon db_eighty))
                      (active_violations (get_dashboard_stats noon db_eighty)) = fl (638 / 10) \<and>
   fl (637 / 10) \<noteq> fl (638 / 10)"
  by code_simp

section \<open>Risk assessment of a user\<close>

lemma get_user_risk_assessment_none:
  assumes "recent_logs uid (now - timedelta_days 7) db = []"
  shows "get_user_risk_assessment ai aid assessed_at now uid db =
           (Inl (HTTPException 404 ''No recent activity found for user''), db)"
  using assms by (simp add: get_user_risk_assessment_def Let_def)

lemma get_user_risk_assessment_some:
  assumes "recent_logs uid (now - timedelta_days 7) db \<noteq> []"
  shows "\<exists>a. fst (get_user_risk_assessment ai aid assessed_at now uid db) = Inr a \<and>
             overall_risk_score a =
               mean (map risk_score (take 100 (recent_logs uid (now - timedelta_days 7) db))) \<and>
             risk_level a = determine_risk_level (overall_risk_score a)"
  using assms by (simp add: get_user_risk_assessment_def Let_def)

text \<open>
  C8, amended. The risk assessment of a user gives the 404 if and only if the user has
  no access record whose access time is seven days before the request or later. When
  there is such a record, the overall risk score is the mean of the risk scores of the
  first 100 of these records in the order of the store, hence of all of them when they
  are 100 or fewer, and the risk level is the level of that mean.
\<close>

theorem risk_assessment_first_hundred:
  "(let window = recent_logs uid (now - timedelta_days 7) db;
        response = fst (get_user_risk_assessment ai aid assessed_at now uid db)
    in (response = Inl (HTTPException 404 ''No recent activity found for user'')
          \<longleftrightarrow> window = []) \<and>
       (window \<noteq> [] \<longrightarrow>
          map_sum status_code overall_risk_score response =
            Inr (mean (map risk_score (take 100 window))) \<and>
          map_sum status_code risk_level response =
            Inr (determine_risk_level (mean (map risk_score (take 100 window))))) \<and>
       (window \<noteq> [] \<and> length window \<le> 100 \<longrightarrow>
          map_sum status_code overall_risk_score response =
            Inr (mean (map risk_score window))))"
proof (cases "recent_logs uid (now - timedelta_days 7) db = []")
  case True
  then show ?thesis by (simp add: get_user_risk_assessment_none Let_def)
next
  case False
  from get_user_risk_assessment_some [OF this, of ai aid assessed_at]
  obtain a where "fst (get_user_risk_assessment ai aid assessed_at now uid db) = Inr a"
    and "overall_risk_score a =
           mean (map risk_score (take 100 (recent_logs uid (now - timedelta_days 7) db)))"
    and "risk_level a = determine_risk_level (overall_risk_score a)"
    by blast
  with False show ?thesis by (simp add: Let_def)
qed

text \<open>
  In the store of 101 records, the user without records gets the 404, and the user
  with the 101 records gets the mean of the first hundred, which is low.
\<close>

theorem risk_assessment_first_hundred_witness:
  "recent_logs ''USR002'' (noon - timedelta_days 7) db_101 = [] \<and>
   fst (get_user_risk_assessment fallback_analysis ''a-1'' noon noon ''USR002'' db_101) =
     Inl (HTTPException 404 ''No recent activity found for user'') \<and>
   recent_logs ''USR001'' (noon - timedelta_days 7) db_101 \<noteq> [] \<and>
   map_sum status_code overall_risk_score
     (fst (get_user_risk_assessment fallback_analysis ''a-1'' noon noon ''USR001'' db_101)) =
     Inr (mean (map risk_score
           (take 100 (recent_logs ''USR001'' (noon - timedelta_days 7) db_101)))) \<and>
   map_sum status_code risk_level
     (fst (get_user_risk_assessment fallback_analysis ''a-1'' noon noon ''USR001'' db_101)) =
     Inr LOW"
proof -
  have e: "recent_logs ''USR002'' (noon - timedelta_days 7) db_101 = []"
    by (simp add: recent_logs_def db_101_def sample_log_def)
  have n: "recent_logs ''USR001'' (noon - timedelta_days 7) db_101 \<noteq> []"
    by (simp add: recent_logs_def db_101_def sample_log_def noon_def timedelta_days_def)
  have m: "determine_risk_level (mean (map risk_score
             (take 100 (recent_logs ''USR001'' (noon - timedelta_days 7) db_101)))) = LOW"
    by code_simp
  from risk_assessment_first_hundred
         [of "''USR002''" noon db_101 fallback_analysis "''a-1''" noon] e
  have r2: "fst (get_user_risk_assessment fallback_analysis ''a-1'' noon noon ''USR002'' db_101) =
     Inl (HTTPException 404 ''No recent activity found for user'')"
    by (simp add: Let_def)
  from risk_assessment_first_hundred
         [of "''USR001''" noon db_101 fallback_analysis "''a-1''" noon] n m
  have r1: "map_sum status_code overall_risk_score
     (fst (get_user_risk_assessment fallback_analysis ''a-1'' noon noon ''USR001'' db_101)) =
     Inr (mean (map risk_score
           (take 100 (recent_logs ''USR001'' (noon - timedelta_days 7) db_101))))"
    and "map_sum status_code risk_level
     (fst (get_user_risk_assessment fallback_analysis ''a-1'' noon noon ''USR001'' db_101)) =
     Inr LOW"
    by (simp_all add: Let_def)
  with e n r2 show ?thesis by blast
qed

text \<open>
  The mean is not taken over all the records of the window: of the 101 records of the
  user, the hundred the cursor returns have score 0 and the one it leaves out has
  score 1; the overall score is 0, and the mean of the 101 scores is not.
\<close>

theorem mean_of_all_counterexample:
  "map_sum status_code overall_risk_score
     (fst (get_user_risk_assessment fallback_analysis ''a-1'' noon noon ''USR001'' db_101)) =
     Inr 0 \<and>
   length (recent_logs ''USR001'' (noon - timedelta_days 7) db_101) = 101 \<and>
   mean (map risk_score (recent_logs ''USR001'' (noon - timedelta_days 7) db_101)) =
     fl (1 / 101) \<and>
   fl (1 / 101) \<noteq> 0"
  by code_simp

end
